theory Spec2Isabelle
  imports Complex_Main
begin

section \<open>Priority calculation of \<open>explainable_ai/metta_service.py\<close>\<close>

text \<open>
  The module computes a weighted priority score from four indicators and renders it into
  a result dictionary. Python floats are modelled as exact rationals (\<open>rat\<close>): the
  thresholds, the clamping and the list construction are the subject here, not the
  rounding error of binary floating point. NaN and the infinities are not values of the
  model.
\<close>

subsection \<open>Builtins: \<open>round\<close>, percent formatting, \<open>dict.get\<close>\<close>

text \<open>
  Python's \<open>round(x, ndigits)\<close> rounds to the nearest multiple of \<open>10 ^ -ndigits\<close>,
  a tie going to the even neighbour.
\<close>

definition round_half_even :: "rat \<Rightarrow> int" where
  "round_half_even x =
     (let f = \<lfloor>x\<rfloor>; d = x - of_int f
      in if d < 1 / 2 then f
         else if 1 / 2 < d then f + 1
         else if even f then f else f + 1)"

definition round_py :: "rat \<Rightarrow> nat \<Rightarrow> rat" where
  "round_py x ndigits = of_int (round_half_even (x * 10 ^ ndigits)) / 10 ^ ndigits"

fun str_nat :: "nat \<Rightarrow> string" where
  "str_nat n =
     (if n < 10 then [''0123456789'' ! n]
      else str_nat (n div 10) @ [''0123456789'' ! (n mod 10)])"

text \<open>
  The format specification \<open>.1%\<close>: the value times 100, in fixed notation with one
  digit after the point, followed by a percent sign. A negative value keeps its sign
  even when it rounds to zero.
\<close>

definition format_percent :: "rat \<Rightarrow> string" where
  "format_percent x =
     (let n = nat (round_half_even (\<bar>x\<bar> * 100 * 10))
      in (if x < 0 then ''-'' else '''') @ str_nat (n div 10) @ ''.'' @ str_nat (n mod 10) @ ''%'')"

definition dict_get :: "('k \<rightharpoonup> 'v) \<Rightarrow> 'k \<Rightarrow> 'v \<Rightarrow> 'v" where
  "dict_get d k dflt = (case d k of None \<Rightarrow> dflt | Some v \<Rightarrow> v)"

subsection \<open>The external engine\<close>

text \<open>
  The \<open>try\<close> block imports \<open>hyperon\<close>, builds an interpreter, runs a program and reads
  the last result. What the interpreter does is outside the module, so it is a parameter
  of the model: the import may fail, the constructor or \<open>run\<close> may raise, or \<open>run\<close>
  returns a list of lists of atoms. An atom whose text \<open>float\<close> accepts is \<open>Number\<close>;
  for any other atom \<open>float(str(atom))\<close> raises \<open>ValueError\<close>.
\<close>

datatype py_error = ImportError | RuntimeError | IndexError | ValueError

datatype atom = Number rat | Symbol string

datatype hyperon =
    Unavailable
  | Init_raises
  | Run_raises
  | Run_returns "atom list list"

definition float_py :: "atom \<Rightarrow> py_error + rat" where
  "float_py a = (case a of Number x \<Rightarrow> Inr x | Symbol s \<Rightarrow> Inl ValueError)"

subsection \<open>\<open>calculate_priority_python\<close>\<close>

definition POVERTY_WEIGHT :: rat where "POVERTY_WEIGHT = 0.4"
definition IMPACT_WEIGHT :: rat where "IMPACT_WEIGHT = 0.3"
definition ENVIRONMENTAL_WEIGHT :: rat where "ENVIRONMENTAL_WEIGHT = 0.2"
definition CORRUPTION_WEIGHT :: rat where "CORRUPTION_WEIGHT = 0.1"

definition calculate_priority_python :: "rat \<Rightarrow> rat \<Rightarrow> rat \<Rightarrow> rat \<Rightarrow> rat" where
  "calculate_priority_python poverty_index project_impact environmental_score corruption_risk =
     poverty_index * POVERTY_WEIGHT +
     project_impact * IMPACT_WEIGHT +
     environmental_score * ENVIRONMENTAL_WEIGHT +
     (1 - corruption_risk) * CORRUPTION_WEIGHT"

subsection \<open>\<open>generate_explanation\<close>\<close>

text \<open>The dictionary of the four templates, in the order the source writes them.\<close>

definition explanations :: "rat \<Rightarrow> rat \<Rightarrow> rat \<Rightarrow> rat \<Rightarrow> (string \<times> string) list" where
  "explanations priority_score poverty_index project_impact environmental_score =
     [(''critical'',
         ''This region shows CRITICAL need with a priority score of '' @
         format_percent priority_score @ ''. '' @
         ''Immediate intervention is required due to high poverty ('' @
         format_percent poverty_index @ '') '' @
         ''and significant project impact potential ('' @
         format_percent project_impact @ '').''),
      (''high'',
         ''This region has HIGH priority with a score of '' @
         format_percent priority_score @ ''. '' @
         ''Substantial resource allocation is recommended given the poverty level ('' @
         format_percent poverty_index @ '') '' @
         ''and environmental conditions ('' @
         format_percent environmental_score @ '').''),
      (''medium'',
         ''This region shows MEDIUM priority with a score of '' @
         format_percent priority_score @ ''. '' @
         ''Standard resource allocation is appropriate based on current metrics.''),
      (''low'',
         ''This region has LOWER priority with a score of '' @
         format_percent priority_score @ ''. '' @
         ''Baseline support should be maintained while monitoring for changing conditions.'')]"

definition generate_explanation ::
  "rat \<Rightarrow> string \<Rightarrow> rat \<Rightarrow> rat \<Rightarrow> rat \<Rightarrow> rat \<Rightarrow> string" where
  "generate_explanation priority_score priority_level poverty_index project_impact
       environmental_score corruption_risk =
     dict_get
       (map_of (explanations priority_score poverty_index project_impact environmental_score))
       priority_level
       ''Priority calculated based on regional metrics.''"

subsection \<open>\<open>generate_key_findings\<close>\<close>

definition generate_key_findings :: "rat \<Rightarrow> rat \<Rightarrow> rat \<Rightarrow> rat \<Rightarrow> string list" where
  "generate_key_findings poverty_index project_impact environmental_score corruption_risk =
     (let findings = [];
          findings =
            (if poverty_index \<ge> 0.7
             then findings @ [''High poverty rate detected ('' @ format_percent poverty_index @
                              '') - economic support needed'']
             else findings);
          findings =
            (if project_impact \<ge> 0.7
             then findings @ [''High project impact potential ('' @ format_percent project_impact @
                              '') - investments will yield strong returns'']
             else findings);
          findings =
            (if environmental_score \<ge> 0.7
             then findings @ [''Severe environmental degradation ('' @
                              format_percent environmental_score @
                              '') - conservation measures urgent'']
             else findings);
          findings =
            (if corruption_risk \<ge> 0.6
             then findings @ [''Elevated corruption risk ('' @ format_percent corruption_risk @
                              '') - enhanced oversight required'']
             else if corruption_risk \<le> 0.3
             then findings @ [''Low corruption risk ('' @ format_percent corruption_risk @
                              '') - favorable governance environment'']
             else findings);
          findings =
            (if findings = []
             then findings @ [''Metrics indicate balanced conditions across all indicators'']
             else findings)
      in findings)"

subsection \<open>\<open>generate_recommendations\<close>\<close>

definition generate_recommendations ::
  "string \<Rightarrow> rat \<Rightarrow> rat \<Rightarrow> rat \<Rightarrow> rat \<Rightarrow> rat \<Rightarrow> string list" where
  "generate_recommendations priority_level allocation_percentage poverty_index project_impact
       environmental_score corruption_risk =
     (let recommendations = [];
          recommendations =
            (if allocation_percentage \<ge> 70
             then recommendations @
                    [''Allocate majority of available funds to this region'',
                     ''Fast-track project approvals and implementation'']
             else if allocation_percentage \<ge> 50
             then recommendations @
                    [''Provide substantial funding allocation'',
                     ''Implement standard monitoring protocols'']
             else recommendations @
                    [''Provide moderate funding allocation'',
                     ''Monitor for changing conditions'']);
          recommendations =
            (if poverty_index \<ge> 0.7
             then recommendations @
                    [''Prioritize poverty alleviation programs'',
                     ''Implement cash transfer or social safety net schemes'']
             else recommendations);
          recommendations =
            (if project_impact \<ge> 0.7
             then recommendations @ [''Maximize investment in high-impact projects'']
             else recommendations);
          recommendations =
            (if environmental_score \<ge> 0.7
             then recommendations @
                    [''Include environmental restoration components'',
                     ''Engage local communities in conservation'']
             else recommendations);
          recommendations =
            (if corruption_risk \<ge> 0.6
             then recommendations @
                    [''Establish strong audit and oversight mechanisms'',
                     ''Use transparent digital payment systems'']
             else recommendations)
      in recommendations)"

subsection \<open>\<open>calculate_priority\<close>\<close>

text \<open>
  The body of the \<open>try\<close> block: the value it assigns to \<open>priority_score\<close>, or the
  exception it raises. \<open>result[-1][0]\<close> raises \<open>IndexError\<close> when the last result is
  empty; an empty \<open>result\<close> takes the \<open>else\<close> branch and calls the Python formula
  without any exception.
\<close>

definition metta_score :: "hyperon \<Rightarrow> rat \<Rightarrow> rat \<Rightarrow> rat \<Rightarrow> rat \<Rightarrow> py_error + rat" where
  "metta_score h poverty_index project_impact environmental_score corruption_risk =
     (case h of
        Unavailable \<Rightarrow> Inl ImportError
      | Init_raises \<Rightarrow> Inl RuntimeError
      | Run_raises \<Rightarrow> Inl RuntimeError
      | Run_returns result \<Rightarrow>
          (if result \<noteq> [] \<and> length result > 0
           then (case last result of
                   [] \<Rightarrow> Inl IndexError
                 | a # _ \<Rightarrow> float_py a)
           else Inr (calculate_priority_python
                       poverty_index project_impact environmental_score corruption_risk)))"

text \<open>
  \<open>try: ... except Exception: ...\<close>: every exception of the body runs the handler, which
  assigns the Python formula's value (the diagnostic \<open>print\<close> is not modelled).
\<close>

definition score_after_try :: "hyperon \<Rightarrow> rat \<Rightarrow> rat \<Rightarrow> rat \<Rightarrow> rat \<Rightarrow> py_error + rat" where
  "score_after_try h poverty_index project_impact environmental_score corruption_risk =
     (case metta_score h poverty_index project_impact environmental_score corruption_risk of
        Inl ex \<Rightarrow> Inr (calculate_priority_python
                         poverty_index project_impact environmental_score corruption_risk)
      | Inr s \<Rightarrow> Inr s)"

text \<open>Lines 82 to 89: the tier from the unrounded score.\<close>

definition level_of_score :: "rat \<Rightarrow> string" where
  "level_of_score priority_score =
     (if priority_score \<ge> 0.7 then ''critical''
      else if priority_score \<ge> 0.5 then ''high''
      else if priority_score \<ge> 0.3 then ''medium''
      else ''low'')"

text \<open>Line 93: \<open>min(100, max(10, priority_score * 100))\<close>.\<close>

definition allocation_of_score :: "rat \<Rightarrow> rat" where
  "allocation_of_score priority_score = min 100 (max 10 (priority_score * 100))"

record priority_result =
  priority_score :: rat
  priority_level :: string
  allocation_percentage :: rat
  confidence_score :: rat
  explanation :: string
  key_findings :: "string list"
  recommendations :: "string list"
  factors :: "(string \<times> rat) list"
  engine :: string

text \<open>Lines 81 to 127: everything after the score is known.\<close>

definition result_of_score :: "rat \<Rightarrow> rat \<Rightarrow> rat \<Rightarrow> rat \<Rightarrow> rat \<Rightarrow> priority_result" where
  "result_of_score score poverty_index project_impact environmental_score corruption_risk =
     (let priority_level = level_of_score score;
          allocation_percentage = allocation_of_score score;
          explanation = generate_explanation score priority_level
                          poverty_index project_impact environmental_score corruption_risk;
          key_findings = generate_key_findings
                           poverty_index project_impact environmental_score corruption_risk;
          recommendations = generate_recommendations priority_level allocation_percentage
                              poverty_index project_impact environmental_score corruption_risk
      in \<lparr> priority_score = round_py score 4,
           priority_level = priority_level,
           allocation_percentage = round_py allocation_percentage 2,
           confidence_score = round_py (0.85 + (score * 0.1)) 2,
           explanation = explanation,
           key_findings = key_findings,
           recommendations = recommendations,
           factors = [(''poverty_index'', poverty_index * 0.4),
                      (''project_impact'', project_impact * 0.3),
                      (''environmental_score'', environmental_score * 0.2),
                      (''corruption_risk'', (1 - corruption_risk) * 0.1)],
           engine = ''metta_local'' \<rparr>)"

definition calculate_priority ::
  "hyperon \<Rightarrow> rat \<Rightarrow> rat \<Rightarrow> rat \<Rightarrow> rat \<Rightarrow> py_error + priority_result" where
  "calculate_priority h poverty_index project_impact environmental_score corruption_risk =
     (case score_after_try h poverty_index project_impact environmental_score corruption_risk of
        Inl ex \<Rightarrow> Inl ex
      | Inr score \<Rightarrow>
          Inr (result_of_score score
                 poverty_index project_impact environmental_score corruption_risk))"

subsection \<open>\<open>get_priority_calculation\<close>\<close>

definition get_priority_calculation ::
  "hyperon \<Rightarrow> (string \<rightharpoonup> rat) \<Rightarrow> py_error + priority_result" where
  "get_priority_calculation h data =
     calculate_priority h
       (dict_get data ''poverty_index'' 0.5)
       (dict_get data ''project_impact'' 0.5)
       (dict_get data ''environmental_score'' 0.5)
       (dict_get data ''corruption_risk'' 0.3)"

subsection \<open>The specification's vocabulary\<close>

text \<open>The two statements of the allocation band: "aggressive" from 70, "standard" from 50, "conservative" below.\<close>

definition allocation_band_items :: "rat \<Rightarrow> string list" where
  "allocation_band_items allocation =
     (if allocation \<ge> 70
      then [''Allocate majority of available funds to this region'',
            ''Fast-track project approvals and implementation'']
      else if allocation \<ge> 50
      then [''Provide substantial funding allocation'',
            ''Implement standard monitoring protocols'']
      else [''Provide moderate funding allocation'',
            ''Monitor for changing conditions''])"

text \<open>The per-metric advice, each metric on its own, in the order poverty, impact, environmental, corruption.\<close>

definition metric_items :: "rat \<Rightarrow> rat \<Rightarrow> rat \<Rightarrow> rat \<Rightarrow> string list" where
  "metric_items poverty impact environmental corruption =
     (if poverty \<ge> 0.7
      then [''Prioritize poverty alleviation programs'',
            ''Implement cash transfer or social safety net schemes'']
      else []) @
     (if impact \<ge> 0.7 then [''Maximize investment in high-impact projects''] else []) @
     (if environmental \<ge> 0.7
      then [''Include environmental restoration components'',
            ''Engage local communities in conservation'']
      else []) @
     (if corruption \<ge> 0.6
      then [''Establish strong audit and oversight mechanisms'',
            ''Use transparent digital payment systems'']
      else [])"

text \<open>The defaults of the adapter.\<close>

definition metric_defaults :: "string \<rightharpoonup> rat" where
  "metric_defaults =
     [''poverty_index'' \<mapsto> 0.5, ''project_impact'' \<mapsto> 0.5,
      ''environmental_score'' \<mapsto> 0.5, ''corruption_risk'' \<mapsto> 0.3]"

text \<open>A key read from the defaults overridden by the given mapping.\<close>

definition with_defaults :: "(string \<rightharpoonup> rat) \<Rightarrow> string \<Rightarrow> rat" where
  "with_defaults data k = the ((metric_defaults ++ data) k)"

text \<open>\<open>clamp(x, lo, hi)\<close>.\<close>

definition clamp :: "rat \<Rightarrow> rat \<Rightarrow> rat \<Rightarrow> rat" where
  "clamp x lo hi = (if x < lo then lo else if hi < x then hi else x)"

section \<open>Properties\<close>

subsection \<open>Rounding\<close>

lemma round_half_even_bounds:
  "\<lfloor>x\<rfloor> \<le> round_half_even x \<and> round_half_even x \<le> \<lfloor>x\<rfloor> + 1"
  by (simp add: round_half_even_def Let_def)

lemma round_half_even_of_int: "round_half_even (of_int k) = k"
  by (simp add: round_half_even_def Let_def)

lemma round_half_even_mono:
  assumes "x \<le> y"
  shows "round_half_even x \<le> round_half_even y"
proof (cases "\<lfloor>x\<rfloor> < \<lfloor>y\<rfloor>")
  case True
  have "round_half_even x \<le> \<lfloor>x\<rfloor> + 1" using round_half_even_bounds by blast
  also have "\<dots> \<le> \<lfloor>y\<rfloor>" using True by simp
  also have "\<dots> \<le> round_half_even y" using round_half_even_bounds by blast
  finally show ?thesis .
next
  case False
  with assms have eq: "\<lfloor>x\<rfloor> = \<lfloor>y\<rfloor>" using floor_mono [of x y] by linarith
  with assms show ?thesis
    by (auto simp add: round_half_even_def Let_def)
qed

lemma round_py_mono: "x \<le> y \<Longrightarrow> round_py x n \<le> round_py y n"
  by (simp add: round_py_def round_half_even_mono divide_right_mono)

lemma round_py_of_int: "round_py (of_int k / 10 ^ n) n = of_int k / 10 ^ n"
  by (simp add: round_py_def round_half_even_of_int)

subsection \<open>The result of \<open>calculate_priority\<close>\<close>

lemma score_after_try_total: "\<exists>s. score_after_try h p i e c = Inr s"
  by (simp add: score_after_try_def split: sum.split)

lemma calculate_priority_result:
  "score_after_try h p i e c = Inr s \<Longrightarrow>
   calculate_priority h p i e c = Inr (result_of_score s p i e c)"
  by (simp add: calculate_priority_def)

lemma result_of_score_fields:
  "priority_score (result_of_score s p i e c) = round_py s 4"
  "priority_level (result_of_score s p i e c) = level_of_score s"
  "allocation_percentage (result_of_score s p i e c) = round_py (allocation_of_score s) 2"
  "confidence_score (result_of_score s p i e c) = round_py (0.85 + s * 0.1) 2"
  "explanation (result_of_score s p i e c) = generate_explanation s (level_of_score s) p i e c"
  "key_findings (result_of_score s p i e c) = generate_key_findings p i e c"
  "recommendations (result_of_score s p i e c) =
     generate_recommendations (level_of_score s) (allocation_of_score s) p i e c"
  "engine (result_of_score s p i e c) = ''metta_local''"
  by (simp_all add: result_of_score_def Let_def)


lemma calculate_priority_python_formula:
  "calculate_priority_python p i e c = p * 0.4 + i * 0.3 + e * 0.2 + (1 - c) * 0.1"
  by (simp add: calculate_priority_python_def POVERTY_WEIGHT_def IMPACT_WEIGHT_def
        ENVIRONMENTAL_WEIGHT_def CORRUPTION_WEIGHT_def)


text \<open>
  C1, as amended. The \<open>engine\<close> entry of the result is the constant
  \<open>'metta_local'\<close> for every input and every behaviour of the external engine: also
  when the external path raises and the Python formula computes the score. The tag does
  not tell the two paths apart.
\<close>

theorem C1_engine_constant:
  "\<exists>r. calculate_priority h p i e c = Inr r \<and> engine r = ''metta_local''"
proof -
  obtain s where "score_after_try h p i e c = Inr s"
    using score_after_try_total by blast
  then show ?thesis
    by (simp add: calculate_priority_result result_of_score_fields)
qed

text \<open>
  C1 as amended, with \<open>hyperon\<close> unavailable and with an engine that answers \<open>0.9\<close>.
\<close>

theorem C1_engine_constant_witness:
  "(\<exists>r. calculate_priority Unavailable (1/2) (1/2) (1/2) (3/10) = Inr r \<and>
        engine r = ''metta_local'') \<and>
   (\<exists>r. calculate_priority (Run_returns [[Number (9/10)]]) (1/2) (1/2) (1/2) (3/10) = Inr r \<and>
        engine r = ''metta_local'')"
  using C1_engine_constant [of Unavailable "1/2" "1/2" "1/2" "3/10"]
        C1_engine_constant [of "Run_returns [[Number (9/10)]]" "1/2" "1/2" "1/2" "3/10"]
  by simp

text \<open>
  C1 as stated fails: with \<open>hyperon\<close> unavailable the \<open>try\<close> block raises and the
  Python formula computes the score; with an engine that answers \<open>0.9\<close> the external path
  computes it; both results carry the same \<open>engine\<close> tag.
\<close>

theorem C1_engine_path_counterexample:
  "metta_score Unavailable (1/2) (1/2) (1/2) (3/10) = Inl ImportError \<and>
   metta_score (Run_returns [[Number (9/10)]]) (1/2) (1/2) (1/2) (3/10) = Inr (9/10) \<and>
   map_sum id engine (calculate_priority Unavailable (1/2) (1/2) (1/2) (3/10)) =
     Inr ''metta_local'' \<and>
   map_sum id engine (calculate_priority (Run_returns [[Number (9/10)]]) (1/2) (1/2) (1/2) (3/10)) =
     Inr ''metta_local''"
  by (simp add: metta_score_def float_py_def calculate_priority_def score_after_try_def
        result_of_score_fields)



text \<open>
  C3. The tier is \<open>'critical'\<close> exactly when the unrounded score is at least \<open>0.7\<close>,
  \<open>'high'\<close> exactly when it is in \<open>[0.5, 0.7)\<close>, \<open>'medium'\<close> exactly when it is in
  \<open>[0.3, 0.5)\<close> and \<open>'low'\<close> exactly when it is below \<open>0.3\<close>; the scores \<open>0.7\<close>, \<open>0.5\<close>
  and \<open>0.3\<close> themselves are \<open>'critical'\<close>, \<open>'high'\<close> and \<open>'medium'\<close>. The returned
  \<open>priority_level\<close> is this tier of the score the \<open>try\<close> statement leaves.
\<close>

theorem C3_tier_thresholds:
  "(level_of_score s = ''critical'' \<longleftrightarrow> 0.7 \<le> s) \<and>
   (level_of_score s = ''high'' \<longleftrightarrow> 0.5 \<le> s \<and> s < 0.7) \<and>
   (level_of_score s = ''medium'' \<longleftrightarrow> 0.3 \<le> s \<and> s < 0.5) \<and>
   (level_of_score s = ''low'' \<longleftrightarrow> s < 0.3) \<and>
   level_of_score 0.7 = ''critical'' \<and> level_of_score 0.5 = ''high'' \<and>
   level_of_score 0.3 = ''medium'' \<and>
   (score_after_try h p i e c = Inr s \<longrightarrow>
      (\<exists>r. calculate_priority h p i e c = Inr r \<and> priority_level r = level_of_score s))"
  by (auto simp add: level_of_score_def calculate_priority_result result_of_score_fields)

text \<open>
  C3 at an engine answer of \<open>0.69999\<close>: the tier is \<open>'high'\<close>.
\<close>

theorem C3_tier_thresholds_witness:
  "score_after_try (Run_returns [[Number (69999/100000)]]) 1 1 1 0 = Inr (69999/100000) \<and>
   level_of_score (69999/100000) = ''high'' \<and>
   (\<exists>r. calculate_priority (Run_returns [[Number (69999/100000)]]) 1 1 1 0 = Inr r \<and>
        priority_level r = ''high'')"
proof -
  have s: "score_after_try (Run_returns [[Number (69999/100000)]]) 1 1 1 0 = Inr (69999/100000)"
    by (simp add: score_after_try_def metta_score_def float_py_def)
  from C3_tier_thresholds [of "69999/100000" "Run_returns [[Number (69999/100000)]]" 1 1 1 0] s
  show ?thesis by auto
qed



text \<open>
  C5. The findings contain the "balanced conditions" string exactly when poverty, impact
  and environmental are below \<open>0.7\<close> and corruption is strictly between \<open>0.3\<close> and
  \<open>0.6\<close>; when it is there it is the only finding. The returned \<open>key_findings\<close> is this
  list.
\<close>

theorem C5_balanced_finding:
  "(''Metrics indicate balanced conditions across all indicators''
      \<in> set (generate_key_findings p i e c)
    \<longleftrightarrow> p < 0.7 \<and> i < 0.7 \<and> e < 0.7 \<and> 0.3 < c \<and> c < 0.6) \<and>
   (''Metrics indicate balanced conditions across all indicators''
      \<in> set (generate_key_findings p i e c)
    \<longrightarrow> generate_key_findings p i e c =
          [''Metrics indicate balanced conditions across all indicators'']) \<and>
   (\<exists>r. calculate_priority h p i e c = Inr r \<and>
        key_findings r = generate_key_findings p i e c)"
proof -
  obtain s where "score_after_try h p i e c = Inr s"
    using score_after_try_total by blast
  then have "\<exists>r. calculate_priority h p i e c = Inr r \<and>
                 key_findings r = generate_key_findings p i e c"
    by (simp add: calculate_priority_result result_of_score_fields)
  moreover have
    "''Metrics indicate balanced conditions across all indicators''
       \<in> set (generate_key_findings p i e c)
     \<longleftrightarrow> p < 0.7 \<and> i < 0.7 \<and> e < 0.7 \<and> 0.3 < c \<and> c < 0.6"
    by (simp add: generate_key_findings_def Let_def not_le)
  moreover have
    "''Metrics indicate balanced conditions across all indicators''
       \<in> set (generate_key_findings p i e c)
     \<longrightarrow> generate_key_findings p i e c =
           [''Metrics indicate balanced conditions across all indicators'']"
    by (simp add: generate_key_findings_def Let_def)
  ultimately show ?thesis by blast
qed

text \<open>
  C5 at \<open>(0.5, 0.5, 0.5, 0.45)\<close>, where the balanced finding is the whole list, and at
  corruption \<open>0.3\<close>, where it is absent.
\<close>

theorem C5_balanced_finding_witness:
  "''Metrics indicate balanced conditions across all indicators''
      \<in> set (generate_key_findings (1/2) (1/2) (1/2) (9/20)) \<and>
   generate_key_findings (1/2) (1/2) (1/2) (9/20) =
     [''Metrics indicate balanced conditions across all indicators''] \<and>
   ''Metrics indicate balanced conditions across all indicators''
      \<notin> set (generate_key_findings (1/2) (1/2) (1/2) (3/10))"
  using C5_balanced_finding [of "1/2" "1/2" "1/2" "9/20" Unavailable]
        C5_balanced_finding [of "1/2" "1/2" "1/2" "3/10" Unavailable]
  by simp

lemma length_allocation_band_items: "length (allocation_band_items a) = 2"
  by (simp add: allocation_band_items_def)

lemma length_metric_items:
  "length (metric_items p i e c) =
     (if p \<ge> 0.7 then 2 else 0) + (if i \<ge> 0.7 then 1 else 0) +
     (if e \<ge> 0.7 then 2 else 0) + (if c \<ge> 0.6 then 2 else 0)"
  by (simp add: metric_items_def)

lemma generate_recommendations_split:
  "generate_recommendations lvl a p i e c = allocation_band_items a @ metric_items p i e c"
  by (simp add: generate_recommendations_def allocation_band_items_def metric_items_def Let_def)

text \<open>
  C6. The recommendations are the two items of the allocation band, chosen by the
  allocation percentage alone, followed by the items of the metrics in the order
  poverty, impact, environmental, corruption; the length is 2 plus 2, 1, 2 and 2 for the
  metrics whose threshold is met. In the result of \<open>calculate_priority\<close> the band is that
  of the unrounded allocation.
\<close>

theorem C6_recommendations_order:
  "generate_recommendations lvl a p i e c = allocation_band_items a @ metric_items p i e c \<and>
   length (allocation_band_items a) = 2 \<and>
   take 2 (generate_recommendations lvl a p i e c) = allocation_band_items a \<and>
   drop 2 (generate_recommendations lvl a p i e c) = metric_items p i e c \<and>
   length (generate_recommendations lvl a p i e c) =
     2 + (if p \<ge> 0.7 then 2 else 0) + (if i \<ge> 0.7 then 1 else 0) +
     (if e \<ge> 0.7 then 2 else 0) + (if c \<ge> 0.6 then 2 else 0) \<and>
   (\<exists>s r. score_after_try h p i e c = Inr s \<and> calculate_priority h p i e c = Inr r \<and>
      recommendations r =
        allocation_band_items (allocation_of_score s) @ metric_items p i e c)"
proof -
  obtain s where s: "score_after_try h p i e c = Inr s"
    using score_after_try_total by blast
  have "\<exists>s r. score_after_try h p i e c = Inr s \<and> calculate_priority h p i e c = Inr r \<and>
      recommendations r =
        allocation_band_items (allocation_of_score s) @ metric_items p i e c"
    using s
    by (simp add: calculate_priority_result result_of_score_fields generate_recommendations_split)
  then show ?thesis
    by (simp add: generate_recommendations_split length_allocation_band_items
          length_metric_items)
qed

text \<open>
  C6 at an allocation of 75 with every metric at \<open>0.8\<close> (all nine items), at an
  allocation of exactly 50 with impact \<open>0.8\<close>, and at an allocation of \<open>49.99\<close>.
\<close>

theorem C6_recommendations_order_witness:
  "generate_recommendations ''low'' 75 (4/5) (4/5) (4/5) (4/5) =
     [''Allocate majority of available funds to this region'',
      ''Fast-track project approvals and implementation'',
      ''Prioritize poverty alleviation programs'',
      ''Implement cash transfer or social safety net schemes'',
      ''Maximize investment in high-impact projects'',
      ''Include environmental restoration components'',
      ''Engage local communities in conservation'',
      ''Establish strong audit and oversight mechanisms'',
      ''Use transparent digital payment systems''] \<and>
   generate_recommendations ''critical'' 50 (1/2) (4/5) (1/2) (1/2) =
     [''Provide substantial funding allocation'',
      ''Implement standard monitoring protocols'',
      ''Maximize investment in high-impact projects''] \<and>
   generate_recommendations ''critical'' (4999/100) 0 0 0 0 =
     [''Provide moderate funding allocation'',
      ''Monitor for changing conditions'']"
  using C6_recommendations_order [of "''low''" 75 "4/5" "4/5" "4/5" "4/5" Unavailable]
        C6_recommendations_order [of "''critical''" 50 "1/2" "4/5" "1/2" "1/2" Unavailable]
        C6_recommendations_order [of "''critical''" "4999/100" 0 0 0 0 Unavailable]
  by (simp add: allocation_band_items_def metric_items_def)

lemma dict_get_with_defaults:
  "dict_get data ''poverty_index'' 0.5 = with_defaults data ''poverty_index''"
  "dict_get data ''project_impact'' 0.5 = with_defaults data ''project_impact''"
  "dict_get data ''environmental_score'' 0.5 = with_defaults data ''environmental_score''"
  "dict_get data ''corruption_risk'' 0.3 = with_defaults data ''corruption_risk''"
  by (simp_all add: dict_get_def with_defaults_def metric_defaults_def map_add_def
        split: option.split)

text \<open>
  C7. \<open>get_priority_calculation\<close> on the empty mapping is \<open>calculate_priority\<close> on
  \<open>(0.5, 0.5, 0.5, 0.3)\<close>; on any mapping it is \<open>calculate_priority\<close> on the four values
  read from the defaults overridden by the mapping.
\<close>

theorem C7_adapter_defaults:
  "get_priority_calculation h Map.empty = calculate_priority h 0.5 0.5 0.5 0.3 \<and>
   get_priority_calculation h data =
     calculate_priority h
       (with_defaults data ''poverty_index'')
       (with_defaults data ''project_impact'')
       (with_defaults data ''environmental_score'')
       (with_defaults data ''corruption_risk'')"
  by (simp add: get_priority_calculation_def dict_get_with_defaults [symmetric])
     (simp add: dict_get_def)

text \<open>
  C7 at a mapping that holds \<open>project_impact\<close> only.
\<close>

theorem C7_adapter_defaults_witness:
  "get_priority_calculation Unavailable [''project_impact'' \<mapsto> 0.9] =
     calculate_priority Unavailable 0.5 0.9 0.5 0.3"
  using C7_adapter_defaults [of Unavailable "[''project_impact'' \<mapsto> 0.9]"]
  by (simp add: with_defaults_def metric_defaults_def map_add_def)

lemma allocation_of_score_clamp: "allocation_of_score s = clamp (s * 100) 10 100"
  by (simp add: allocation_of_score_def clamp_def min_def max_def)

lemma allocation_of_score_range: "10 \<le> allocation_of_score s \<and> allocation_of_score s \<le> 100"
  by (simp add: allocation_of_score_def min_def max_def)

lemma allocation_of_score_mono: "s \<le> t \<Longrightarrow> allocation_of_score s \<le> allocation_of_score t"
  by (simp add: allocation_of_score_def min_def max_def)

lemma round_py_allocation_range:
  "10 \<le> round_py (allocation_of_score s) 2 \<and> round_py (allocation_of_score s) 2 \<le> 100"
proof -
  have lo: "round_py 10 2 = 10" using round_py_of_int [of 1000 2] by simp
  have hi: "round_py 100 2 = 100" using round_py_of_int [of 10000 2] by simp
  from allocation_of_score_range [of s] have
    "round_py 10 2 \<le> round_py (allocation_of_score s) 2"
    "round_py (allocation_of_score s) 2 \<le> round_py 100 2"
    by (simp_all add: round_py_mono)
  with lo hi show ?thesis by simp
qed

text \<open>
  C8. The allocation percentage is \<open>clamp(score * 100, 10, 100)\<close>: it lies in
  \<open>[10, 100]\<close>, does not decrease when the score grows, is 10 at score \<open>0.05\<close> and 100 at
  score 1. The returned \<open>allocation_percentage\<close> is this value rounded to 2 decimal
  places, which keeps the bounds and the monotonicity, and the recommendations are computed
  from the unrounded value.
\<close>

theorem C8_allocation_clamp:
  "allocation_of_score s = clamp (s * 100) 10 100 \<and>
   10 \<le> allocation_of_score s \<and> allocation_of_score s \<le> 100 \<and>
   (s \<le> t \<longrightarrow> allocation_of_score s \<le> allocation_of_score t) \<and>
   allocation_of_score 0.05 = 10 \<and> allocation_of_score 1 = 100 \<and>
   (score_after_try h p i e c = Inr s \<longrightarrow>
      (\<exists>r. calculate_priority h p i e c = Inr r \<and>
           allocation_percentage r = round_py (clamp (s * 100) 10 100) 2 \<and>
           10 \<le> allocation_percentage r \<and> allocation_percentage r \<le> 100 \<and>
           recommendations r =
             generate_recommendations (priority_level r) (clamp (s * 100) 10 100) p i e c)) \<and>
   (s \<le> t \<longrightarrow>
      allocation_percentage (result_of_score s p i e c) \<le>
      allocation_percentage (result_of_score t p i e c))"
proof -
  have ex: "allocation_of_score 0.05 = 10 \<and> allocation_of_score 1 = 100"
    by (simp add: allocation_of_score_def)
  have ret: "score_after_try h p i e c = Inr s \<longrightarrow>
      (\<exists>r. calculate_priority h p i e c = Inr r \<and>
           allocation_percentage r = round_py (clamp (s * 100) 10 100) 2 \<and>
           10 \<le> allocation_percentage r \<and> allocation_percentage r \<le> 100 \<and>
           recommendations r =
             generate_recommendations (priority_level r) (clamp (s * 100) 10 100) p i e c)"
    using round_py_allocation_range [of s]
    by (simp add: calculate_priority_result result_of_score_fields allocation_of_score_clamp)
  have mono: "s \<le> t \<longrightarrow>
      allocation_percentage (result_of_score s p i e c) \<le>
      allocation_percentage (result_of_score t p i e c)"
    by (simp add: result_of_score_fields round_py_mono allocation_of_score_mono)
  from ex ret mono allocation_of_score_clamp [of s] allocation_of_score_range [of s]
    allocation_of_score_mono [of s t]
  show ?thesis by blast
qed

text \<open>
  C8 at the scores \<open>0.05\<close> and \<open>0.68\<close>.
\<close>

theorem C8_allocation_clamp_witness:
  "(1/20 :: rat) \<le> 17/25 \<and>
   allocation_of_score (1/20) = 10 \<and> allocation_of_score (17/25) = 68 \<and>
   allocation_of_score (1/20) \<le> allocation_of_score (17/25) \<and>
   score_after_try Unavailable (4/5) (3/5) (1/2) (1/5) = Inr (17/25) \<and>
   (\<exists>r. calculate_priority Unavailable (4/5) (3/5) (1/2) (1/5) = Inr r \<and>
        allocation_percentage r = round_py 68 2)"
proof -
  have le: "(1/20 :: rat) \<le> 17/25" by simp
  have s: "score_after_try Unavailable (4/5) (3/5) (1/2) (1/5) = Inr (17/25)"
    by (simp add: score_after_try_def metta_score_def calculate_priority_python_formula)
  from le s
    C8_allocation_clamp [of "1/20" "17/25" Unavailable "4/5" "3/5" "1/2" "1/5"]
    C8_allocation_clamp [of "17/25" "17/25" Unavailable "4/5" "3/5" "1/2" "1/5"]
  show ?thesis by (auto simp add: clamp_def)
qed



lemma level_of_score_cases:
  "level_of_score s = ''critical'' \<or> level_of_score s = ''high'' \<or>
   level_of_score s = ''medium'' \<or> level_of_score s = ''low''"
  by (simp add: level_of_score_def)

lemma explanation_of_level:
  assumes "lvl = ''critical'' \<or> lvl = ''high'' \<or> lvl = ''medium'' \<or> lvl = ''low''"
  shows "map_of (explanations s p i e) lvl = Some (generate_explanation s lvl p i e c) \<and>
         generate_explanation s lvl p i e c \<noteq> ''Priority calculated based on regional metrics.''"
  using assms
  by (auto simp add: generate_explanation_def explanations_def dict_get_def)

text \<open>
  C10. The returned \<open>priority_level\<close> is one of the four keys of the template
  dictionary, the returned \<open>explanation\<close> is the template stored under it, and it is not
  the default string of \<open>dict.get\<close>. The default is what \<open>generate_explanation\<close> returns
  for any other level, such as \<open>'urgent'\<close>, which \<open>calculate_priority\<close> never passes.
\<close>

theorem C10_explanation_template:
  "(\<exists>s r. score_after_try h p i e c = Inr s \<and> calculate_priority h p i e c = Inr r \<and>
      priority_level r \<in> {''critical'', ''high'', ''medium'', ''low''} \<and>
      map_of (explanations s p i e) (priority_level r) = Some (explanation r) \<and>
      explanation r \<noteq> ''Priority calculated based on regional metrics.'') \<and>
   generate_explanation s' ''urgent'' p i e c = ''Priority calculated based on regional metrics.''"
proof -
  obtain s where s: "score_after_try h p i e c = Inr s"
    using score_after_try_total by blast
  have "priority_level (result_of_score s p i e c) \<in> {''critical'', ''high'', ''medium'', ''low''}"
    using level_of_score_cases [of s] by (simp add: result_of_score_fields)
  moreover have
    "map_of (explanations s p i e) (priority_level (result_of_score s p i e c)) =
       Some (explanation (result_of_score s p i e c)) \<and>
     explanation (result_of_score s p i e c) \<noteq> ''Priority calculated based on regional metrics.''"
    using explanation_of_level [OF level_of_score_cases [of s], of s p i e c]
    by (simp add: result_of_score_fields)
  moreover have
    "generate_explanation s' ''urgent'' p i e c = ''Priority calculated based on regional metrics.''"
    by (simp add: generate_explanation_def explanations_def dict_get_def)
  ultimately show ?thesis
    using s calculate_priority_result [OF s] by blast
qed

text \<open>
  C10 at the inputs \<open>(0.8, 0.6, 0.5, 0.2)\<close> with \<open>hyperon\<close> unavailable: the level is one
  of the four keys and the explanation is not the default.
\<close>

theorem C10_explanation_template_witness:
  "\<exists>s r. score_after_try Unavailable (4/5) (3/5) (1/2) (1/5) = Inr s \<and>
      calculate_priority Unavailable (4/5) (3/5) (1/2) (1/5) = Inr r \<and>
      priority_level r \<in> {''critical'', ''high'', ''medium'', ''low''} \<and>
      map_of (explanations s (4/5) (3/5) (1/2)) (priority_level r) = Some (explanation r) \<and>
      explanation r \<noteq> ''Priority calculated based on regional metrics.''"
  using C10_explanation_template [of Unavailable "4/5" "3/5" "1/2" "1/5"]
  by blast

end
